theory Spec2Isabelle
  imports Main "HOL-Library.Sublist"
begin

section \<open>The audio playback entry point \<open>playAudio\<close>\<close>

text \<open>
  The repository consists of one function with C linkage,
  \<^verbatim>\<open>extern "C" void playAudio(const char* filePath)\<close>
  in \<^verbatim>\<open>src/stdlib/public/runtime/playAudio.cpp\<close>. It is straight-line code
  whose whole meaning lies in its effects: lines written to \<^verbatim>\<open>std::cout\<close>, one
  query of the filesystem, and calls of the runtime loader (\<^verbatim>\<open>dlopen\<close>,
  \<^verbatim>\<open>dlsym\<close>, \<^verbatim>\<open>dlerror\<close>, \<^verbatim>\<open>dlclose\<close>) and of the function the
  loader resolved. The embedding therefore makes the outside world a parameter (what
  the filesystem and the loader answer) and makes the effects a value: the list of
  events of one invocation, in program order.
\<close>

subsection \<open>Values of the program\<close>

text \<open>
  A \<^verbatim>\<open>void*\<close> handle and a function pointer are addresses. Only their
  non-null values are values of these types; the null pointer a failed loader call
  returns is the failure branch of the loader's answer below.
\<close>

type_synonym handle = nat
type_synonym funptr = nat

text \<open>The binding mode given to \<^verbatim>\<open>dlopen\<close>; the source passes \<^verbatim>\<open>RTLD_LAZY\<close>.\<close>

datatype bind_mode = RTLD_LAZY | RTLD_NOW

text \<open>
  What \<^verbatim>\<open>std::filesystem::exists(const path&)\<close> does. It returns true or false;
  and, being the overload without an \<^verbatim>\<open>error_code&\<close> parameter, it throws
  \<^verbatim>\<open>std::filesystem::filesystem_error\<close> when the underlying status query fails
  with an error other than "not found" (no search permission on a directory of the
  path, a path name that is too long, a loop of symbolic links).
\<close>

datatype fs_status = Found | NotFound | FsError

text \<open>
  What the call through the resolved pointer does. The pointer has the type
  \<^verbatim>\<open>void (*)(const char*)\<close>, which promises nothing about exceptions, and the
  function behind it belongs to the backing library: it returns, or an exception
  leaves it, or it does not come back at all (it ends the process or runs forever).
\<close>

datatype callee_outcome = CalleeReturns | CalleeThrows | CalleeNeverReturns

datatype exn = filesystem_error | callee_exception

text \<open>
  The outside world as one invocation sees it.
  \<^item> \<open>fs_exists\<close>: the filesystem's answer for a path.
  \<^item> \<open>dlopen\<close>: for a library path and a binding mode, either a handle
    (\<open>Inr\<close>), or a null result (\<open>Inl\<close>) together with the message that the
    next \<^verbatim>\<open>dlerror()\<close> reports.
  \<^item> \<open>dlsym\<close>: for a handle and a symbol name, either the symbol's address, or a
    null result with the message of the next \<^verbatim>\<open>dlerror()\<close>.
  \<^item> \<open>callee\<close>: for a resolved address and the argument of the call, how the call
    through that address ends.
\<close>

record world =
  fs_exists :: "string \<Rightarrow> fs_status"
  dlopen :: "string \<Rightarrow> bind_mode \<Rightarrow> string + handle"
  dlsym :: "handle \<Rightarrow> string \<Rightarrow> string + funptr"
  callee :: "funptr \<Rightarrow> string \<Rightarrow> callee_outcome"

text \<open>
  The events of an invocation. \<open>Print s\<close> is one statement
  \<^verbatim>\<open>std::cout << ... << std::endl\<close>: the text \<open>s\<close> followed by the end of the
  line. The loader events carry the arguments of the call and its result.
\<close>

datatype event =
    Print string
  | FsExists string
  | DlOpen string bind_mode "handle option"
  | DlSym handle string "funptr option"
  | DlError string
  | Call funptr string
  | DlClose handle

text \<open>
  How an invocation ends: it returns to its caller, an exception leaves the function,
  control never comes back from the call it made, or its behaviour is undefined. All
  but the last carry the events up to that point.
\<close>

datatype run =
    UndefinedBehaviour
  | Threw exn "event list"
  | NeverReturned "event list"
  | Returned "event list"

fun events :: "run \<Rightarrow> event list" where
  "events UndefinedBehaviour = []"
| "events (Threw e t) = t"
| "events (NeverReturned t) = t"
| "events (Returned t) = t"

subsection \<open>The function\<close>

text \<open>The string literal of line 17, the first argument of \<^verbatim>\<open>dlopen\<close>.\<close>

definition dylib :: string where
  "dylib = ''/Users/Salman/Projects/Prototypes/FastZip/Assets/OSPort.dylib''"

text \<open>
  \<^verbatim>\<open>playAudio\<close>, statement by statement. The parameter is a \<^verbatim>\<open>const char*\<close>:
  \<open>None\<close> is the null pointer, \<open>Some path\<close> points to the null-terminated bytes
  \<open>path\<close>. The first statement inserts the pointer into \<^verbatim>\<open>std::cout\<close> and the
  second constructs a \<^verbatim>\<open>std::filesystem::path\<close> from it; both require a pointer
  to a null-terminated string, and nothing tests the pointer before, so a null
  pointer is undefined behaviour. The function has no \<^verbatim>\<open>try\<close> block and
  releases the handle by plain calls of \<^verbatim>\<open>dlclose\<close>, so line 31 is reached only
  when the call of line 30 returns.
\<close>

definition playAudio :: "world \<Rightarrow> string option \<Rightarrow> run" where
  "playAudio w filePath =
    (case filePath of
       None \<Rightarrow> UndefinedBehaviour
     | Some path \<Rightarrow>
        (let t0 = [Print (''Attempting to play: '' @ path), FsExists path] in
         case fs_exists w path of
           FsError \<Rightarrow> Threw filesystem_error t0
         | NotFound \<Rightarrow> Returned (t0 @ [Print ''File does not exist''])
         | Found \<Rightarrow>
            (let t1 = t0 @ [Print ''File exists''] in
             case dlopen w dylib RTLD_LAZY of
               Inl msg \<Rightarrow>
                 Returned (t1 @ [DlOpen dylib RTLD_LAZY None, DlError msg,
                                 Print (''Unable to load dylib: '' @ msg)])
             | Inr handle \<Rightarrow>
                (let t2 = t1 @ [DlOpen dylib RTLD_LAZY (Some handle)] in
                 case dlsym w handle ''av_playAudio'' of
                   Inl msg \<Rightarrow>
                     Returned (t2 @ [DlSym handle ''av_playAudio'' None, DlError msg,
                                     Print (''Unable to find symbol: '' @ msg),
                                     DlClose handle])
                 | Inr playAudioFunc \<Rightarrow>
                    (let t3 = t2 @ [DlSym handle ''av_playAudio'' (Some playAudioFunc),
                                    Call playAudioFunc path] in
                     case callee w playAudioFunc path of
                       CalleeThrows \<Rightarrow> Threw callee_exception t3
                     | CalleeNeverReturns \<Rightarrow> NeverReturned t3
                     | CalleeReturns \<Rightarrow> Returned (t3 @ [DlClose handle]))))))"

subsection \<open>Observations on the events\<close>

text \<open>The lines written to the standard output, in order.\<close>

fun printed :: "event list \<Rightarrow> string list" where
  "printed [] = []"
| "printed (Print s # t) = s # printed t"
| "printed (e # t) = printed t"

text \<open>
  The bytes written to the standard output: each statement writes its text and then
  \<^verbatim>\<open>std::endl\<close>, a newline. The lines of the output are the pieces of these
  bytes between newlines, so a text that itself contains a newline makes several lines.
\<close>

definition newline :: char where
  "newline = CHR 0x0A"

fun stdout_text :: "event list \<Rightarrow> string" where
  "stdout_text [] = []"
| "stdout_text (Print s # t) = s @ newline # stdout_text t"
| "stdout_text (e # t) = stdout_text t"

fun lines_of :: "string \<Rightarrow> string list" where
  "lines_of [] = []"
| "lines_of (c # cs) =
     (if c = newline then [] # lines_of cs
      else (case lines_of cs of [] \<Rightarrow> [[c]] | l # ls \<Rightarrow> (c # l) # ls))"

definition stdout_lines :: "event list \<Rightarrow> string list" where
  "stdout_lines t = lines_of (stdout_text t)"

text \<open>The lines that one statement writing the text \<open>s\<close> adds to the output.\<close>

definition statement_lines :: "string \<Rightarrow> string list" where
  "statement_lines s = lines_of (s @ [newline])"

text \<open>The error descriptions that \<^verbatim>\<open>dlerror()\<close> returned.\<close>

fun loader_messages :: "event list \<Rightarrow> string list" where
  "loader_messages [] = []"
| "loader_messages (DlError msg # t) = msg # loader_messages t"
| "loader_messages (e # t) = loader_messages t"

text \<open>The calls of \<^verbatim>\<open>dlopen\<close>: library path and binding mode.\<close>

fun opened :: "event list \<Rightarrow> (string \<times> bind_mode) list" where
  "opened [] = []"
| "opened (DlOpen l m r # t) = (l, m) # opened t"
| "opened (e # t) = opened t"

text \<open>The handles acquired (successful \<^verbatim>\<open>dlopen\<close>) and released (\<^verbatim>\<open>dlclose\<close>).\<close>

fun acquired :: "event list \<Rightarrow> handle list" where
  "acquired [] = []"
| "acquired (DlOpen l m (Some h) # t) = h # acquired t"
| "acquired (e # t) = acquired t"

fun released :: "event list \<Rightarrow> handle list" where
  "released [] = []"
| "released (DlClose h # t) = h # released t"
| "released (e # t) = released t"

text \<open>The calls of \<^verbatim>\<open>dlsym\<close>: handle and symbol name.\<close>

fun resolved :: "event list \<Rightarrow> (handle \<times> string) list" where
  "resolved [] = []"
| "resolved (DlSym h s r # t) = (h, s) # resolved t"
| "resolved (e # t) = resolved t"

text \<open>The calls through a resolved function pointer: pointer and argument.\<close>

fun calls :: "event list \<Rightarrow> (funptr \<times> string) list" where
  "calls [] = []"
| "calls (Call f a # t) = (f, a) # calls t"
| "calls (e # t) = calls t"

text \<open>An interaction with the runtime loader or with what it loaded.\<close>

fun loader_event :: "event \<Rightarrow> bool" where
  "loader_event (Print s) = False"
| "loader_event (FsExists p) = False"
| "loader_event e = True"

text \<open>A line of the form \<^verbatim>\<open>Attempting to play: <path>\<close>.\<close>

definition attempt_line :: "string \<Rightarrow> bool" where
  "attempt_line s = prefix ''Attempting to play: '' s"

text \<open>An error description one of whose lines has that form.\<close>

definition forging_message :: "string \<Rightarrow> bool" where
  "forging_message msg = list_ex attempt_line (statement_lines msg)"


subsection \<open>The scenarios of the specification\<close>

text \<open>
  Concrete worlds for the end-to-end scenarios: every file but \<^verbatim>\<open>/nope.wav\<close>
  exists, the backing library exports the symbol and its function returns; the
  library is absent; the library lacks the symbol; the filesystem cannot determine
  the status of any path.
\<close>

definition happy_world :: world where
  "happy_world =
    \<lparr>fs_exists = (\<lambda>p. if p = ''/nope.wav'' then NotFound else Found),
     dlopen = (\<lambda>l m. if l = dylib \<and> m = RTLD_LAZY then Inr 4096 else Inl ''image not found''),
     dlsym = (\<lambda>h s. if h = 4096 \<and> s = ''av_playAudio'' then Inr 8192
                     else Inl ''symbol not found''),
     callee = (\<lambda>f a. CalleeReturns)\<rparr>"

definition library_absent_world :: world where
  "library_absent_world = happy_world\<lparr>dlopen := (\<lambda>l m. Inl ''image not found'')\<rparr>"

definition symbol_absent_world :: world where
  "symbol_absent_world = happy_world\<lparr>dlsym := (\<lambda>h s. Inl ''symbol not found'')\<rparr>"

definition unreadable_world :: world where
  "unreadable_world = happy_world\<lparr>fs_exists := (\<lambda>p. FsError)\<rparr>"

text \<open>The backing function throws (a C++ or Objective-C exception of the library).\<close>

definition throwing_callee_world :: world where
  "throwing_callee_world = happy_world\<lparr>callee := (\<lambda>f a. CalleeThrows)\<rparr>"

text \<open>
  A path whose last component has 256 bytes, more than a file name may have
  (\<^verbatim>\<open>NAME_MAX\<close> is 255): no entry of any filesystem has this name, and the status
  query for it fails with \<^verbatim>\<open>ENAMETOOLONG\<close>, which is not a "not found" answer.
\<close>

definition long_name_path :: string where
  "long_name_path = ''/tmp/'' @ replicate 256 (CHR ''a'')"

definition name_too_long_world :: world where
  "name_too_long_world =
     happy_world\<lparr>fs_exists := (\<lambda>p. if p = long_name_path then FsError else NotFound)\<rparr>"

text \<open>A path with a newline in it, whose second line imitates the first line of output.\<close>

definition two_line_path :: string where
  "two_line_path = ''/tmp/a'' @ [newline] @ ''Attempting to play: /tmp/a''"

text \<open>A loader whose error description has a second line that imitates that line.\<close>

definition forging_loader_world :: world where
  "forging_loader_world =
     happy_world\<lparr>dlopen := (\<lambda>l m. Inl (''image not found'' @ [newline] @
                                          ''Attempting to play: /tmp/sample.wav''))\<rparr>"

section \<open>The paths through the function\<close>

lemma playAudio_null: "playAudio w None = UndefinedBehaviour"
  by (simp add: playAudio_def)

lemma playAudio_fs_error:
  "fs_exists w p = FsError \<Longrightarrow>
   playAudio w (Some p) =
     Threw filesystem_error [Print (''Attempting to play: '' @ p), FsExists p]"
  by (simp add: playAudio_def)

lemma playAudio_missing:
  "fs_exists w p = NotFound \<Longrightarrow>
   playAudio w (Some p) =
     Returned [Print (''Attempting to play: '' @ p), FsExists p,
               Print ''File does not exist'']"
  by (simp add: playAudio_def)

lemma playAudio_load_failure:
  "fs_exists w p = Found \<Longrightarrow> dlopen w dylib RTLD_LAZY = Inl msg \<Longrightarrow>
   playAudio w (Some p) =
     Returned [Print (''Attempting to play: '' @ p), FsExists p, Print ''File exists'',
               DlOpen dylib RTLD_LAZY None, DlError msg,
               Print (''Unable to load dylib: '' @ msg)]"
  by (simp add: playAudio_def)

lemma playAudio_symbol_missing:
  "fs_exists w p = Found \<Longrightarrow> dlopen w dylib RTLD_LAZY = Inr h \<Longrightarrow>
   dlsym w h ''av_playAudio'' = Inl msg \<Longrightarrow>
   playAudio w (Some p) =
     Returned [Print (''Attempting to play: '' @ p), FsExists p, Print ''File exists'',
               DlOpen dylib RTLD_LAZY (Some h),
               DlSym h ''av_playAudio'' None, DlError msg,
               Print (''Unable to find symbol: '' @ msg), DlClose h]"
  by (simp add: playAudio_def)

lemma playAudio_callee_throws:
  "fs_exists w p = Found \<Longrightarrow> dlopen w dylib RTLD_LAZY = Inr h \<Longrightarrow>
   dlsym w h ''av_playAudio'' = Inr f \<Longrightarrow> callee w f p = CalleeThrows \<Longrightarrow>
   playAudio w (Some p) =
     Threw callee_exception
       [Print (''Attempting to play: '' @ p), FsExists p, Print ''File exists'',
        DlOpen dylib RTLD_LAZY (Some h),
        DlSym h ''av_playAudio'' (Some f), Call f p]"
  by (simp add: playAudio_def)

lemma playAudio_callee_never_returns:
  "fs_exists w p = Found \<Longrightarrow> dlopen w dylib RTLD_LAZY = Inr h \<Longrightarrow>
   dlsym w h ''av_playAudio'' = Inr f \<Longrightarrow> callee w f p = CalleeNeverReturns \<Longrightarrow>
   playAudio w (Some p) =
     NeverReturned
       [Print (''Attempting to play: '' @ p), FsExists p, Print ''File exists'',
        DlOpen dylib RTLD_LAZY (Some h),
        DlSym h ''av_playAudio'' (Some f), Call f p]"
  by (simp add: playAudio_def)

lemma playAudio_success:
  "fs_exists w p = Found \<Longrightarrow> dlopen w dylib RTLD_LAZY = Inr h \<Longrightarrow>
   dlsym w h ''av_playAudio'' = Inr f \<Longrightarrow> callee w f p = CalleeReturns \<Longrightarrow>
   playAudio w (Some p) =
     Returned [Print (''Attempting to play: '' @ p), FsExists p, Print ''File exists'',
               DlOpen dylib RTLD_LAZY (Some h),
               DlSym h ''av_playAudio'' (Some f), Call f p, DlClose h]"
  by (simp add: playAudio_def)

lemmas playAudio_path_simps =
  playAudio_null playAudio_fs_error playAudio_missing playAudio_load_failure
  playAudio_symbol_missing playAudio_callee_throws playAudio_callee_never_returns
  playAudio_success

text \<open>Every invocation takes exactly one of the eight paths.\<close>

lemma playAudio_paths:
  fixes w :: world and fp :: "string option"
  obtains (null) "fp = None"
  | (fs_error) p where "fp = Some p" "fs_exists w p = FsError"
  | (missing) p where "fp = Some p" "fs_exists w p = NotFound"
  | (load_failure) p msg where "fp = Some p" "fs_exists w p = Found"
      "dlopen w dylib RTLD_LAZY = Inl msg"
  | (symbol_missing) p h msg where "fp = Some p" "fs_exists w p = Found"
      "dlopen w dylib RTLD_LAZY = Inr h" "dlsym w h ''av_playAudio'' = Inl msg"
  | (callee_throws) p h f where "fp = Some p" "fs_exists w p = Found"
      "dlopen w dylib RTLD_LAZY = Inr h" "dlsym w h ''av_playAudio'' = Inr f"
      "callee w f p = CalleeThrows"
  | (callee_never_returns) p h f where "fp = Some p" "fs_exists w p = Found"
      "dlopen w dylib RTLD_LAZY = Inr h" "dlsym w h ''av_playAudio'' = Inr f"
      "callee w f p = CalleeNeverReturns"
  | (success) p h f where "fp = Some p" "fs_exists w p = Found"
      "dlopen w dylib RTLD_LAZY = Inr h" "dlsym w h ''av_playAudio'' = Inr f"
      "callee w f p = CalleeReturns"
proof (cases fp)
  case None
  then show ?thesis by (rule null)
next
  case (Some p)
  show ?thesis
  proof (cases "fs_exists w p")
    case FsError
    with Some show ?thesis by (rule fs_error)
  next
    case NotFound
    with Some show ?thesis by (rule missing)
  next
    case Found
    show ?thesis
    proof (cases "dlopen w dylib RTLD_LAZY")
      case (Inl msg)
      with Some Found show ?thesis by (rule load_failure)
    next
      case opened: (Inr h)
      show ?thesis
      proof (cases "dlsym w h ''av_playAudio''")
        case (Inl msg)
        with Some Found opened show ?thesis by (rule symbol_missing)
      next
        case resolved: (Inr f)
        show ?thesis
        proof (cases "callee w f p")
          case CalleeReturns
          with Some Found opened resolved show ?thesis by (rule success)
        next
          case CalleeThrows
          with Some Found opened resolved show ?thesis by (rule callee_throws)
        next
          case CalleeNeverReturns
          with Some Found opened resolved show ?thesis by (rule callee_never_returns)
        qed
      qed
    qed
  qed
qed

text \<open>
  When the filesystem answers the status query and the backing function, if it is
  called, returns, the function returns to its caller.
\<close>

lemma playAudio_returns:
  fixes w :: world
  assumes "fs_exists w p \<noteq> FsError" and "\<And>f. callee w f p = CalleeReturns"
  shows "\<exists>t. playAudio w (Some p) = Returned t"
proof (cases rule: playAudio_paths [where fp = "Some p" and w = w])
  case null
  then show ?thesis by simp
next
  case (fs_error q)
  with assms show ?thesis by simp
next
  case (missing q)
  then show ?thesis by (simp add: playAudio_missing)
next
  case (load_failure q msg)
  then show ?thesis by (simp add: playAudio_load_failure)
next
  case (symbol_missing q h msg)
  then show ?thesis by (simp add: playAudio_symbol_missing)
next
  case (callee_throws q h f)
  with assms(2) [of f] show ?thesis by simp
next
  case (callee_never_returns q h f)
  with assms(2) [of f] show ?thesis by simp
next
  case (success q h f)
  then show ?thesis by (simp add: playAudio_success)
qed

text \<open>
  Whenever the function returns, a handle it acquired has been released by its last
  event and by no earlier one.
\<close>

lemma returned_run_releases_handle:
  assumes "playAudio w fp = Returned t" and "h \<in> set (acquired t)"
  shows "\<exists>t'. t = t' @ [DlClose h] \<and> acquired t' = [h] \<and> released t' = []"
proof (cases rule: playAudio_paths [where fp = fp and w = w])
  case null
  with assms show ?thesis by (simp add: playAudio_null)
next
  case (fs_error p)
  with assms show ?thesis by (simp add: playAudio_fs_error)
next
  case (missing p)
  with assms show ?thesis by (auto simp add: playAudio_missing)
next
  case (load_failure p msg)
  with assms show ?thesis by (auto simp add: playAudio_load_failure)
next
  case (symbol_missing p h' msg)
  with assms show ?thesis by (auto simp add: playAudio_symbol_missing)
next
  case (callee_throws p h' f)
  with assms show ?thesis by (simp add: playAudio_callee_throws)
next
  case (callee_never_returns p h' f)
  with assms show ?thesis by (simp add: playAudio_callee_never_returns)
next
  case (success p h' f)
  with assms show ?thesis by (auto simp add: playAudio_success)
qed

text \<open>
  When the filesystem reports that the path has no entry, the function prints the
  two lines and returns; none of its events concerns the loader.
\<close>

lemma not_found_no_loader:
  assumes "fs_exists w p = NotFound"
  shows "\<exists>t. playAudio w (Some p) = Returned t \<and>
             printed t = [''Attempting to play: '' @ p, ''File does not exist''] \<and>
             filter loader_event t = [] \<and>
             opened t = [] \<and> resolved t = [] \<and> calls t = [] \<and> released t = []"
  by (simp add: playAudio_missing [OF assms])

section \<open>The lines of the output\<close>

lemma lines_of_terminated: "lines_of (s @ newline # rest) \<noteq> []"
  by (induction s) (auto split: list.splits)

lemma lines_of_line:
  "newline \<notin> set s \<Longrightarrow> lines_of (s @ newline # rest) = s # lines_of rest"
  by (induction s) auto

text \<open>The lines of a text that continues after the end of a line.\<close>

lemma lines_of_continued:
  "lines_of (s @ newline # rest) = statement_lines s @ lines_of rest"
proof (induction s)
  case Nil
  show ?case by (simp add: statement_lines_def)
next
  case (Cons c s)
  show ?case
  proof (cases "c = newline")
    case True
    with Cons show ?thesis by (simp add: statement_lines_def)
  next
    case False
    from lines_of_terminated [of s "[]"] obtain l ls
      where "lines_of (s @ [newline]) = l # ls"
      by (cases "lines_of (s @ [newline])") auto
    with False Cons show ?thesis by (simp add: statement_lines_def)
  qed
qed

text \<open>The output is, statement by statement, the lines of the texts printed.\<close>

lemma stdout_lines_printed:
  "stdout_lines t = concat (map statement_lines (printed t))"
proof (induction t)
  case Nil
  show ?case by (simp add: stdout_lines_def)
next
  case (Cons e t)
  then show ?case
    by (cases e) (simp_all add: stdout_lines_def lines_of_continued)
qed

lemma statement_lines_plain:
  "newline \<notin> set s \<Longrightarrow> statement_lines s = [s]"
  using lines_of_line [of s "[]"] by (simp add: statement_lines_def)

text \<open>
  A statement that writes a text without newline and then an error description: the
  first line of the description continues the text, its other lines follow.
\<close>

lemma statement_lines_prefixed:
  assumes "newline \<notin> set a"
  shows "statement_lines (a @ m) =
           (a @ hd (statement_lines m)) # tl (statement_lines m)"
  using assms
proof (induction a)
  case Nil
  from lines_of_terminated [of m "[]"] show ?case by (simp add: statement_lines_def)
next
  case (Cons c a)
  from lines_of_terminated [of "a @ m" "[]"]
  obtain l ls where "lines_of (a @ m @ [newline]) = l # ls"
    by (cases "lines_of (a @ m @ [newline])") auto
  with Cons show ?case by (auto simp add: statement_lines_def)
qed

lemma statement_lines_nonempty: "statement_lines m \<noteq> []"
  using lines_of_terminated [of m "[]"] by (simp add: statement_lines_def)

lemma no_forged_continuation:
  "\<not> forging_message msg \<Longrightarrow> filter attempt_line (tl (statement_lines msg)) = []"
  using statement_lines_nonempty [of msg]
  by (cases "statement_lines msg") (auto simp add: forging_message_def filter_empty_conv list_ex_iff)

text \<open>
  The output of the two failure paths of the loader, for texts \<open>a\<close>, \<open>b\<close>, \<open>u\<close>
  without newline.
\<close>

lemma stdout_lines_diagnostic:
  assumes "printed t = [a, b, u @ msg]"
    and "newline \<notin> set a" and "newline \<notin> set b" and "newline \<notin> set u"
  shows "stdout_lines t =
           a # b # (u @ hd (statement_lines msg)) # tl (statement_lines msg)"
  using assms
  by (simp add: stdout_lines_printed statement_lines_plain statement_lines_prefixed)

lemma stdout_lines_two:
  assumes "printed t = [a, b]" and "newline \<notin> set a" and "newline \<notin> set b"
  shows "stdout_lines t = [a, b]"
  using assms
  by (simp add: stdout_lines_printed statement_lines_plain)

lemma stdout_lines_one:
  assumes "printed t = [a]" and "newline \<notin> set a"
  shows "stdout_lines t = [a]"
  using assms
  by (simp add: stdout_lines_printed statement_lines_plain)

section \<open>The answers of the scenario worlds\<close>

lemma happy_world_simps:
  "fs_exists happy_world ''/tmp/sample.wav'' = Found"
  "fs_exists happy_world ''/nope.wav'' = NotFound"
  "dlopen happy_world dylib RTLD_LAZY = Inr 4096"
  "dlsym happy_world 4096 ''av_playAudio'' = Inr 8192"
  "callee happy_world f a = CalleeReturns"
  by (simp_all add: happy_world_def)

lemma library_absent_world_simps:
  "fs_exists library_absent_world ''/tmp/sample.wav'' = Found"
  "dlopen library_absent_world dylib RTLD_LAZY = Inl ''image not found''"
  by (simp_all add: library_absent_world_def happy_world_def)

lemma symbol_absent_world_simps:
  "fs_exists symbol_absent_world ''/tmp/sample.wav'' = Found"
  "fs_exists symbol_absent_world ''/tmp/other.wav'' = Found"
  "dlopen symbol_absent_world dylib RTLD_LAZY = Inr 4096"
  "dlsym symbol_absent_world 4096 ''av_playAudio'' = Inl ''symbol not found''"
  by (simp_all add: symbol_absent_world_def happy_world_def)

lemma unreadable_world_simps:
  "fs_exists unreadable_world p = FsError"
  by (simp add: unreadable_world_def)

lemma throwing_callee_world_simps:
  "fs_exists throwing_callee_world ''/tmp/sample.wav'' = Found"
  "dlopen throwing_callee_world dylib RTLD_LAZY = Inr 4096"
  "dlsym throwing_callee_world 4096 ''av_playAudio'' = Inr 8192"
  "callee throwing_callee_world f a = CalleeThrows"
  by (simp_all add: throwing_callee_world_def happy_world_def)

lemma name_too_long_world_simps:
  "fs_exists name_too_long_world long_name_path = FsError"
  by (simp add: name_too_long_world_def)

lemma happy_world_two_line_path:
  "fs_exists happy_world two_line_path = Found"
  by (simp add: happy_world_def two_line_path_def)

lemma forging_loader_world_simps:
  "fs_exists forging_loader_world ''/tmp/sample.wav'' = Found"
  "dlopen forging_loader_world dylib RTLD_LAZY =
     Inl (''image not found'' @ [newline] @ ''Attempting to play: /tmp/sample.wav'')"
  by (simp_all add: forging_loader_world_def happy_world_def)

section \<open>The properties\<close>

subsection \<open>The library handle\<close>

text \<open>
  C1. The claim is that an acquired handle is released exactly once on every exit
  path, also when the backing function is invoked. Whenever the function returns this
  is so (\<open>returned_run_releases_handle\<close>). But the release of line 31 is a plain
  call after the call of line 30: when the backing function throws, the exception
  leaves \<open>playAudio\<close> with the handle acquired and never released. The theorem
  evaluates the function in a world whose backing function throws.
\<close>

theorem throwing_callee_leaks_handle:
  "playAudio throwing_callee_world (Some ''/tmp/sample.wav'') =
     Threw callee_exception
       [Print ''Attempting to play: /tmp/sample.wav'', FsExists ''/tmp/sample.wav'',
        Print ''File exists'', DlOpen dylib RTLD_LAZY (Some 4096),
        DlSym 4096 ''av_playAudio'' (Some 8192), Call 8192 ''/tmp/sample.wav''] \<and>
   acquired (events (playAudio throwing_callee_world (Some ''/tmp/sample.wav''))) = [4096] \<and>
   released (events (playAudio throwing_callee_world (Some ''/tmp/sample.wav''))) = []"
  by (simp add: playAudio_callee_throws [OF throwing_callee_world_simps])

text \<open>
  C8. Wherever an invocation calls through a function pointer \<open>f\<close>, the events
  before the call contain the successful \<^verbatim>\<open>dlopen\<close> of a handle \<open>h\<close> and the
  \<^verbatim>\<open>dlsym\<close> on \<open>h\<close> that returned \<open>f\<close> and contain no release, and the events
  after the call are exactly the release of \<open>h\<close> when the call returns, and none
  when it does not: the call happens strictly before the release of the handle the
  pointer was resolved from, and nothing is called after it.
\<close>

theorem call_precedes_release:
  assumes "events (playAudio w fp) = xs @ Call f a # ys"
  shows "\<exists>h. DlSym h ''av_playAudio'' (Some f) \<in> set xs \<and>
             DlOpen dylib RTLD_LAZY (Some h) \<in> set xs \<and>
             released xs = [] \<and>
             ys = (if callee w f a = CalleeReturns then [DlClose h] else []) \<and>
             calls ys = []"
proof (cases rule: playAudio_paths [where fp = fp and w = w])
  case null
  with assms show ?thesis by (simp add: playAudio_null)
next
  case (fs_error p)
  with assms show ?thesis
    by (simp add: playAudio_fs_error Cons_eq_append_conv)
next
  case (missing p)
  with assms show ?thesis
    by (simp add: playAudio_missing Cons_eq_append_conv)
next
  case (load_failure p msg)
  with assms show ?thesis
    by (simp add: playAudio_load_failure Cons_eq_append_conv)
next
  case (symbol_missing p h msg)
  with assms show ?thesis
    by (simp add: playAudio_symbol_missing Cons_eq_append_conv)
next
  case (callee_throws p h g)
  with assms have
    "xs = [Print (''Attempting to play: '' @ p), FsExists p, Print ''File exists'',
           DlOpen dylib RTLD_LAZY (Some h), DlSym h ''av_playAudio'' (Some g)] \<and>
     f = g \<and> a = p \<and> ys = []"
    by (auto simp add: playAudio_callee_throws Cons_eq_append_conv)
  with callee_throws show ?thesis by simp
next
  case (callee_never_returns p h g)
  with assms have
    "xs = [Print (''Attempting to play: '' @ p), FsExists p, Print ''File exists'',
           DlOpen dylib RTLD_LAZY (Some h), DlSym h ''av_playAudio'' (Some g)] \<and>
     f = g \<and> a = p \<and> ys = []"
    by (auto simp add: playAudio_callee_never_returns Cons_eq_append_conv)
  with callee_never_returns show ?thesis by simp
next
  case (success p h g)
  with assms have
    "xs = [Print (''Attempting to play: '' @ p), FsExists p, Print ''File exists'',
           DlOpen dylib RTLD_LAZY (Some h), DlSym h ''av_playAudio'' (Some g)] \<and>
     f = g \<and> a = p \<and> ys = [DlClose h]"
    by (auto simp add: playAudio_success Cons_eq_append_conv)
  with success show ?thesis by simp
qed

theorem call_precedes_release_witness:
  "events (playAudio happy_world (Some ''/tmp/sample.wav'')) =
     [Print ''Attempting to play: /tmp/sample.wav'', FsExists ''/tmp/sample.wav'',
      Print ''File exists'', DlOpen dylib RTLD_LAZY (Some 4096),
      DlSym 4096 ''av_playAudio'' (Some 8192)]
     @ Call 8192 ''/tmp/sample.wav'' # [DlClose 4096] \<and>
   (\<exists>h. DlSym h ''av_playAudio'' (Some 8192) \<in>
          set [Print ''Attempting to play: /tmp/sample.wav'', FsExists ''/tmp/sample.wav'',
               Print ''File exists'', DlOpen dylib RTLD_LAZY (Some 4096),
               DlSym 4096 ''av_playAudio'' (Some 8192)] \<and>
        [DlClose 4096] = [DlClose h])"
proof -
  have e: "events (playAudio happy_world (Some ''/tmp/sample.wav'')) =
     [Print ''Attempting to play: /tmp/sample.wav'', FsExists ''/tmp/sample.wav'',
      Print ''File exists'', DlOpen dylib RTLD_LAZY (Some 4096),
      DlSym 4096 ''av_playAudio'' (Some 8192)]
     @ Call 8192 ''/tmp/sample.wav'' # [DlClose 4096]"
    by (simp add: playAudio_success [OF happy_world_simps(1,3,4,5)])
  from call_precedes_release [OF e] obtain h where
    "DlSym h ''av_playAudio'' (Some 8192) \<in>
          set [Print ''Attempting to play: /tmp/sample.wav'', FsExists ''/tmp/sample.wav'',
               Print ''File exists'', DlOpen dylib RTLD_LAZY (Some 4096),
               DlSym 4096 ''av_playAudio'' (Some 8192)]"
    "[DlClose 4096] =
       (if callee happy_world 8192 ''/tmp/sample.wav'' = CalleeReturns then [DlClose h] else [])"
    by blast
  with e show ?thesis by (simp add: happy_world_simps(5))
qed

subsection \<open>The call of the backing function\<close>

text \<open>
  C2. On the success path (the input path exists, the library loads, the symbol
  resolves) \<open>playAudio\<close> has called the resolved function exactly once: the list
  of calls is the single call with the caller's path as argument, however that call
  ends; and when the call returns, \<open>playAudio\<close> returns.
\<close>

theorem success_calls_backing_function_once:
  assumes "fs_exists w p = Found"
    and "dlopen w dylib RTLD_LAZY = Inr h"
    and "dlsym w h ''av_playAudio'' = Inr f"
  shows "calls (events (playAudio w (Some p))) = [(f, p)] \<and>
         (callee w f p = CalleeReturns \<longrightarrow> (\<exists>t. playAudio w (Some p) = Returned t))"
proof (cases "callee w f p")
  case CalleeReturns
  with assms show ?thesis by (simp add: playAudio_success)
next
  case CalleeThrows
  with assms show ?thesis by (simp add: playAudio_callee_throws)
next
  case CalleeNeverReturns
  with assms show ?thesis by (simp add: playAudio_callee_never_returns)
qed

theorem success_calls_backing_function_once_witness:
  "fs_exists happy_world ''/tmp/sample.wav'' = Found \<and>
   dlopen happy_world dylib RTLD_LAZY = Inr 4096 \<and>
   dlsym happy_world 4096 ''av_playAudio'' = Inr 8192 \<and>
   callee happy_world 8192 ''/tmp/sample.wav'' = CalleeReturns \<and>
   (\<exists>t. playAudio happy_world (Some ''/tmp/sample.wav'') = Returned t) \<and>
   calls (events (playAudio happy_world (Some ''/tmp/sample.wav''))) =
     [(8192, ''/tmp/sample.wav'')]"
proof -
  note h = happy_world_simps(1,3,4)
  note r = happy_world_simps(5) [of 8192 "''/tmp/sample.wav''"]
  from success_calls_backing_function_once [OF h] r
  have "calls (events (playAudio happy_world (Some ''/tmp/sample.wav''))) =
     [(8192, ''/tmp/sample.wav'')]"
    and "\<exists>t. playAudio happy_world (Some ''/tmp/sample.wav'') = Returned t"
    by blast+
  with h r show ?thesis by blast
qed

text \<open>
  C7. When the input path exists, the one call of \<^verbatim>\<open>dlopen\<close> is for the
  backing library with \<^verbatim>\<open>RTLD_LAZY\<close>; when that call gives a handle, the one call
  of \<^verbatim>\<open>dlsym\<close> is on that handle for the name \<^verbatim>\<open>av_playAudio\<close>; and when that
  gives an address, the address is used as a function of one path string, called
  with the input path.
\<close>

theorem opens_lazily_and_resolves_symbol:
  assumes "fs_exists w p = Found"
  shows "opened (events (playAudio w (Some p))) = [(dylib, RTLD_LAZY)] \<and>
         (\<forall>h. dlopen w dylib RTLD_LAZY = Inr h \<longrightarrow>
              resolved (events (playAudio w (Some p))) = [(h, ''av_playAudio'')]) \<and>
         (\<forall>h f. dlopen w dylib RTLD_LAZY = Inr h \<longrightarrow> dlsym w h ''av_playAudio'' = Inr f \<longrightarrow>
              calls (events (playAudio w (Some p))) = [(f, p)])"
proof (cases rule: playAudio_paths [where fp = "Some p" and w = w])
  case null
  then show ?thesis by simp
next
  case (fs_error q)
  with assms show ?thesis by simp
next
  case (missing q)
  with assms show ?thesis by simp
next
  case (load_failure q msg)
  then show ?thesis by (simp add: playAudio_load_failure)
next
  case (symbol_missing q h msg)
  then show ?thesis by (simp add: playAudio_symbol_missing)
next
  case (callee_throws q h f)
  then show ?thesis by (simp add: playAudio_callee_throws)
next
  case (callee_never_returns q h f)
  then show ?thesis by (simp add: playAudio_callee_never_returns)
next
  case (success q h f)
  then show ?thesis by (simp add: playAudio_success)
qed

theorem opens_lazily_and_resolves_symbol_witness:
  "fs_exists happy_world ''/tmp/sample.wav'' = Found \<and>
   dlopen happy_world dylib RTLD_LAZY = Inr 4096 \<and>
   dlsym happy_world 4096 ''av_playAudio'' = Inr 8192 \<and>
   opened (events (playAudio happy_world (Some ''/tmp/sample.wav''))) =
     [(''/Users/Salman/Projects/Prototypes/FastZip/Assets/OSPort.dylib'', RTLD_LAZY)] \<and>
   resolved (events (playAudio happy_world (Some ''/tmp/sample.wav''))) =
     [(4096, ''av_playAudio'')] \<and>
   calls (events (playAudio happy_world (Some ''/tmp/sample.wav''))) =
     [(8192, ''/tmp/sample.wav'')]"
proof -
  note h = happy_world_simps(1,3,4)
  from h opens_lazily_and_resolves_symbol [OF h(1)] show ?thesis
    by (simp add: dylib_def)
qed

subsection \<open>The failure paths\<close>

text \<open>
  C3. The claim is that for every input path that names no existing entry the
  function prints \<^verbatim>\<open>File does not exist\<close> and returns without touching the
  loader. When the filesystem reports the path as not found this is so
  (\<open>not_found_no_loader\<close>). But a path can name no entry and the status query can
  fail all the same, as for a file name longer than \<^verbatim>\<open>NAME_MAX\<close>: then line 10
  throws, the line \<^verbatim>\<open>File does not exist\<close> is not printed and the function does
  not return. This is the defect of C6, seen from the validation. The theorem
  evaluates the function at such a path.
\<close>

theorem name_too_long_escapes_validation:
  "playAudio name_too_long_world (Some long_name_path) =
     Threw filesystem_error
       [Print (''Attempting to play: '' @ long_name_path), FsExists long_name_path] \<and>
   printed (events (playAudio name_too_long_world (Some long_name_path))) =
     [''Attempting to play: '' @ long_name_path]"
  by (simp add: playAudio_fs_error [OF name_too_long_world_simps])



text \<open>
  C6. The claim is that the function returns normally for every input path and every
  outcome of the filesystem and the loader. The function does return whenever the
  filesystem answers the status query and the backing function returns
  (\<open>playAudio_returns\<close>). But line 10 calls the throwing overload of
  \<^verbatim>\<open>std::filesystem::exists\<close> outside any \<^verbatim>\<open>try\<close> block: when the status
  query fails, \<^verbatim>\<open>filesystem_error\<close> leaves the function after the first line
  has been written. The theorem evaluates the function in such a world.
\<close>

theorem fs_error_escapes_playAudio:
  "playAudio unreadable_world (Some ''/tmp/sample.wav'') =
     Threw filesystem_error
       [Print ''Attempting to play: /tmp/sample.wav'', FsExists ''/tmp/sample.wav'']"
  by (simp add: playAudio_fs_error [OF unreadable_world_simps])

subsection \<open>The output\<close>

text \<open>
  C5. The claim is that for every input path the output has exactly one line
  \<^verbatim>\<open>Attempting to play: <path>\<close>, before any other output. The function writes
  the path as it is, so a path with a newline in it is written as several lines: at
  \<open>two_line_path\<close> no line of the output is that text followed by the path, and two
  lines have the form. A loader whose error description has a line of the form adds
  a second such line in the same way.
\<close>

theorem attempt_line_counterexample:
  "stdout_lines (events (playAudio happy_world (Some two_line_path))) =
     [''Attempting to play: /tmp/a'', ''Attempting to play: /tmp/a'', ''File exists''] \<and>
   ''Attempting to play: '' @ two_line_path
     \<notin> set (stdout_lines (events (playAudio happy_world (Some two_line_path)))) \<and>
   length (filter attempt_line
     (stdout_lines (events (playAudio happy_world (Some two_line_path))))) = 2 \<and>
   newline \<notin> set ''/tmp/sample.wav'' \<and>
   stdout_lines (events (playAudio forging_loader_world (Some ''/tmp/sample.wav''))) =
     [''Attempting to play: /tmp/sample.wav'', ''File exists'',
      ''Unable to load dylib: image not found'', ''Attempting to play: /tmp/sample.wav'']"
proof -
  note r = playAudio_success [OF happy_world_two_line_path happy_world_simps(3,4,5)]
  have a: "stdout_lines (events (playAudio happy_world (Some two_line_path))) =
     [''Attempting to play: /tmp/a'', ''Attempting to play: /tmp/a'', ''File exists'']"
    unfolding r
    by (simp add: stdout_lines_printed statement_lines_def two_line_path_def newline_def)
  have b: "''Attempting to play: '' @ two_line_path
     \<notin> set [''Attempting to play: /tmp/a'', ''Attempting to play: /tmp/a'', ''File exists'']"
    by (simp add: two_line_path_def)
  have c: "length (filter attempt_line
     [''Attempting to play: /tmp/a'', ''Attempting to play: /tmp/a'', ''File exists'']) = 2"
    by (simp add: attempt_line_def)
  have d: "newline \<notin> set ''/tmp/sample.wav''"
    by (simp add: newline_def)
  have e: "stdout_lines (events (playAudio forging_loader_world (Some ''/tmp/sample.wav''))) =
     [''Attempting to play: /tmp/sample.wav'', ''File exists'',
      ''Unable to load dylib: image not found'', ''Attempting to play: /tmp/sample.wav'']"
    by (simp add: playAudio_load_failure [OF forging_loader_world_simps]
          stdout_lines_printed statement_lines_def newline_def)
  from a b c d e show ?thesis by (simp only: simp_thms)
qed

text \<open>
  C5, amended. For every input path without a newline, whatever the filesystem, the
  loader and the backing function do, the first line of the output is
  \<^verbatim>\<open>Attempting to play: \<close> followed by the path; and no later line of the output
  has that form, unless a line of an error description of the loader has it.
\<close>

theorem attempt_line_first_line_of_output:
  assumes "newline \<notin> set p"
  shows "\<exists>rest. stdout_lines (events (playAudio w (Some p))) =
                  (''Attempting to play: '' @ p) # rest \<and>
          (\<not> list_ex forging_message (loader_messages (events (playAudio w (Some p)))) \<longrightarrow>
             filter attempt_line rest = [])"
proof -
  from assms have a: "newline \<notin> set (''Attempting to play: '' @ p)"
    by (simp add: newline_def)
  have b: "newline \<notin> set ''File exists''" "newline \<notin> set ''File does not exist''"
    "newline \<notin> set ''Unable to load dylib: ''" "newline \<notin> set ''Unable to find symbol: ''"
    by (simp_all add: newline_def)
  have n: "\<not> attempt_line ''File exists''" "\<not> attempt_line ''File does not exist''"
    "\<not> attempt_line (''Unable to load dylib: '' @ x)"
    "\<not> attempt_line (''Unable to find symbol: '' @ x)" for x
    by (simp_all add: attempt_line_def)
  show ?thesis
  proof (cases rule: playAudio_paths [where fp = "Some p" and w = w])
    case null
    then show ?thesis by simp
  next
    case (fs_error q)
    then have r: "playAudio w (Some p) =
        Threw filesystem_error [Print (''Attempting to play: '' @ p), FsExists p]"
      by (simp add: playAudio_fs_error)
    have "printed (events (playAudio w (Some p))) = [''Attempting to play: '' @ p]"
      by (simp add: r)
    from stdout_lines_one [OF this a] show ?thesis by simp
  next
    case (missing q)
    then have "printed (events (playAudio w (Some p))) =
        [''Attempting to play: '' @ p, ''File does not exist'']"
      by (simp add: playAudio_missing)
    from stdout_lines_two [OF this a b(2)] n(2) show ?thesis by simp
  next
    case (load_failure q msg)
    then have r: "playAudio w (Some p) =
        Returned [Print (''Attempting to play: '' @ p), FsExists p, Print ''File exists'',
                  DlOpen dylib RTLD_LAZY None, DlError msg,
                  Print (''Unable to load dylib: '' @ msg)]"
      by (simp add: playAudio_load_failure)
    have "printed (events (playAudio w (Some p))) =
        [''Attempting to play: '' @ p, ''File exists'', ''Unable to load dylib: '' @ msg]"
      by (simp add: r)
    from stdout_lines_diagnostic [OF this a b(1) b(3)]
    have l: "stdout_lines (events (playAudio w (Some p))) =
        (''Attempting to play: '' @ p) # ''File exists'' #
        (''Unable to load dylib: '' @ hd (statement_lines msg)) # tl (statement_lines msg)" .
    have m: "loader_messages (events (playAudio w (Some p))) = [msg]"
      by (simp add: r)
    from n(1) n(3) [of "hd (statement_lines msg)"] no_forged_continuation [of msg]
    show ?thesis unfolding l m by simp
  next
    case (symbol_missing q h msg)
    then have r: "playAudio w (Some p) =
        Returned [Print (''Attempting to play: '' @ p), FsExists p, Print ''File exists'',
                  DlOpen dylib RTLD_LAZY (Some h),
                  DlSym h ''av_playAudio'' None, DlError msg,
                  Print (''Unable to find symbol: '' @ msg), DlClose h]"
      by (simp add: playAudio_symbol_missing)
    have "printed (events (playAudio w (Some p))) =
        [''Attempting to play: '' @ p, ''File exists'', ''Unable to find symbol: '' @ msg]"
      by (simp add: r)
    from stdout_lines_diagnostic [OF this a b(1) b(4)]
    have l: "stdout_lines (events (playAudio w (Some p))) =
        (''Attempting to play: '' @ p) # ''File exists'' #
        (''Unable to find symbol: '' @ hd (statement_lines msg)) # tl (statement_lines msg)" .
    have m: "loader_messages (events (playAudio w (Some p))) = [msg]"
      by (simp add: r)
    from n(1) n(4) [of "hd (statement_lines msg)"] no_forged_continuation [of msg]
    show ?thesis unfolding l m by simp
  next
    case (callee_throws q h f)
    then have "printed (events (playAudio w (Some p))) =
        [''Attempting to play: '' @ p, ''File exists'']"
      by (simp add: playAudio_callee_throws)
    from stdout_lines_two [OF this a b(1)] n(1) show ?thesis by simp
  next
    case (callee_never_returns q h f)
    then have "printed (events (playAudio w (Some p))) =
        [''Attempting to play: '' @ p, ''File exists'']"
      by (simp add: playAudio_callee_never_returns)
    from stdout_lines_two [OF this a b(1)] n(1) show ?thesis by simp
  next
    case (success q h f)
    then have "printed (events (playAudio w (Some p))) =
        [''Attempting to play: '' @ p, ''File exists'']"
      by (simp add: playAudio_success)
    from stdout_lines_two [OF this a b(1)] n(1) show ?thesis by simp
  qed
qed

theorem attempt_line_first_line_of_output_witness:
  "newline \<notin> set ''/tmp/sample.wav'' \<and>
   \<not> list_ex forging_message
       (loader_messages (events (playAudio library_absent_world (Some ''/tmp/sample.wav'')))) \<and>
   (\<exists>rest. stdout_lines (events (playAudio library_absent_world (Some ''/tmp/sample.wav''))) =
             ''Attempting to play: /tmp/sample.wav'' # rest \<and>
           filter attempt_line rest = [])"
proof -
  have a: "newline \<notin> set ''/tmp/sample.wav''"
    by (simp add: newline_def)
  have b: "\<not> list_ex forging_message
       (loader_messages (events (playAudio library_absent_world (Some ''/tmp/sample.wav''))))"
    by (simp add: playAudio_load_failure [OF library_absent_world_simps]
          forging_message_def statement_lines_def newline_def attempt_line_def)
  from attempt_line_first_line_of_output [OF a, of library_absent_world] b
  obtain rest where
    "stdout_lines (events (playAudio library_absent_world (Some ''/tmp/sample.wav''))) =
       (''Attempting to play: '' @ ''/tmp/sample.wav'') # rest"
    "filter attempt_line rest = []"
    by blast
  with a b show ?thesis by simp
qed

subsection \<open>The input path and the library path\<close>

text \<open>
  C9. Take two invocations, in any two worlds and with any two input paths. Every
  library path that either passes to \<^verbatim>\<open>dlopen\<close> is the constant \<open>dylib\<close>, so
  both pass the same one: the input path has no influence on the library opened.
\<close>

theorem library_path_independent_of_input:
  assumes "(l1, m1) \<in> set (opened (events (playAudio w1 fp1)))"
    and "(l2, m2) \<in> set (opened (events (playAudio w2 fp2)))"
  shows "l1 = l2 \<and> l1 = dylib"
proof -
  have one: "set (opened (events (playAudio w fp))) \<subseteq> {(dylib, RTLD_LAZY)}" for w fp
    by (rule playAudio_paths [where fp = fp and w = w])
       (simp_all add: playAudio_path_simps)
  from assms(1) one [of w1 fp1] have "l1 = dylib" by auto
  moreover from assms(2) one [of w2 fp2] have "l2 = dylib" by auto
  ultimately show ?thesis by simp
qed

theorem library_path_independent_of_input_witness:
  "(''/Users/Salman/Projects/Prototypes/FastZip/Assets/OSPort.dylib'', RTLD_LAZY)
     \<in> set (opened (events (playAudio happy_world (Some ''/tmp/sample.wav'')))) \<and>
   (''/Users/Salman/Projects/Prototypes/FastZip/Assets/OSPort.dylib'', RTLD_LAZY)
     \<in> set (opened (events (playAudio symbol_absent_world (Some ''/tmp/other.wav'')))) \<and>
   ''/Users/Salman/Projects/Prototypes/FastZip/Assets/OSPort.dylib'' = dylib"
proof -
  have a: "(''/Users/Salman/Projects/Prototypes/FastZip/Assets/OSPort.dylib'', RTLD_LAZY)
     \<in> set (opened (events (playAudio happy_world (Some ''/tmp/sample.wav''))))"
    by (simp add: playAudio_success [OF happy_world_simps(1,3,4,5)] dylib_def)
  have b: "(''/Users/Salman/Projects/Prototypes/FastZip/Assets/OSPort.dylib'', RTLD_LAZY)
     \<in> set (opened (events (playAudio symbol_absent_world (Some ''/tmp/other.wav''))))"
    by (simp add: playAudio_symbol_missing [OF symbol_absent_world_simps(2,3,4)] dylib_def)
  from a b library_path_independent_of_input [OF a b] show ?thesis by blast
qed

text \<open>
  C10. The behaviour of an invocation is undefined exactly when the input is the null
  pointer: the function uses the pointer as a string in its first statement without
  testing it, and every non-null input has a defined behaviour.
\<close>

theorem null_path_undefined:
  "(playAudio w fp = UndefinedBehaviour) = (fp = None)"
  by (rule playAudio_paths [where fp = fp and w = w])
     (simp_all add: playAudio_path_simps)

end
